theory Spec2Isabelle
  imports Main "HOL-Library.Word"
begin

section \<open>Go values\<close>

text \<open>
  The service is compiled for a 64-bit target, where Go's \<open>int\<close> is a 64-bit two's
  complement integer: \<open>+\<close> and \<open>*\<close> wrap around, comparisons are signed.
\<close>

type_synonym go_int = "64 word"

subsection \<open>float64\<close>

text \<open>
  The program converts two \<open>int\<close>s with \<open>float64(...)\<close>, divides them and compares the
  quotient with \<open><\<close> against the constants 0.5, 0.6 and 0.7. A \<open>float64\<close> is
  not-a-number, an infinity, or a finite number \<open>Finite m e\<close> of value \<open>m * 2 ^ e\<close>
  (the pair is not normalised, so finite numbers are compared by value, not with \<open>=\<close>).
  The sign of a zero is not tracked: \<open>float64(n)\<close> never yields a negative zero, and
  \<open><\<close> does not see the sign. Results are rounded to the nearest binary64 number, ties
  to even: 53 significant bits, least exponent -1022, overflow to infinity from
  \<open>2 ^ 1024\<close>.
\<close>

datatype float64 = NaN | PosInf | NegInf | Finite int int

text \<open>\<open>2 ^ k\<close>, and 1 for a negative \<open>k\<close>.\<close>

definition pow2 :: "int \<Rightarrow> int" where
  "pow2 k = 2 ^ nat k"

fun bit_length :: "nat \<Rightarrow> nat" where
  "bit_length n = (if n = 0 then 0 else Suc (bit_length (n div 2)))"

declare bit_length.simps [simp del]

text \<open>
  The exponent of a positive fraction \<open>p / q\<close>: the \<open>e\<close> with
  \<open>2 ^ e \<le> p / q < 2 ^ (e + 1)\<close>.
\<close>

definition floor_log2 :: "int \<Rightarrow> int \<Rightarrow> int" where
  "floor_log2 p q =
     (let d = int (bit_length (nat p)) - int (bit_length (nat q))
      in if q * pow2 d \<le> p * pow2 (- d) then d else d - 1)"

text \<open>The integer nearest to \<open>n / d\<close>, a tie going to the even one.\<close>

definition round_half_even :: "int \<Rightarrow> int \<Rightarrow> int" where
  "round_half_even n d =
     (let f = n div d; r = n mod d
      in if 2 * r < d then f
         else if d < 2 * r then f + 1
         else if even f then f else f + 1)"

text \<open>The \<open>float64\<close> nearest to the fraction \<open>p / q\<close>, for \<open>0 < q\<close>.\<close>

definition round_float64 :: "int \<Rightarrow> int \<Rightarrow> float64" where
  "round_float64 p q =
     (if p = 0 then Finite 0 0
      else let a = \<bar>p\<bar>;
               s = max (floor_log2 a q) (- 1022) - 52;
               m = round_half_even (a * pow2 (- s)) (q * pow2 s)
           in if 1024 < int (bit_length (nat m)) + s then (if 0 < p then PosInf else NegInf)
              else Finite (if 0 < p then m else - m) s)"

text \<open>The conversion \<open>float64(n)\<close> of an \<open>int\<close>.\<close>

definition float64_of_int :: "go_int \<Rightarrow> float64" where
  "float64_of_int n = round_float64 (sint n) 1"

text \<open>
  Division \<open>x / y\<close>: a zero divisor gives an infinity, and \<open>0 / 0\<close> gives NaN; no
  division of floating-point numbers faults.
\<close>

fun fdiv :: "float64 \<Rightarrow> float64 \<Rightarrow> float64" where
  "fdiv (Finite m1 e1) (Finite m2 e2) =
     (if m2 = 0 then (if m1 = 0 then NaN else if 0 < m1 then PosInf else NegInf)
      else round_float64 (sgn m2 * m1 * pow2 (e1 - e2)) (\<bar>m2\<bar> * pow2 (e2 - e1)))"
| "fdiv (Finite m1 e1) PosInf = Finite 0 0"
| "fdiv (Finite m1 e1) NegInf = Finite 0 0"
| "fdiv PosInf (Finite m2 e2) = (if 0 \<le> m2 then PosInf else NegInf)"
| "fdiv NegInf (Finite m2 e2) = (if 0 \<le> m2 then NegInf else PosInf)"
| "fdiv _ _ = NaN"

text \<open>The comparison \<open>x < y\<close>: false whenever an operand is NaN.\<close>

fun flt :: "float64 \<Rightarrow> float64 \<Rightarrow> bool" where
  "flt (Finite m1 e1) (Finite m2 e2) = (m1 * pow2 (e1 - e2) < m2 * pow2 (e2 - e1))"
| "flt (Finite m1 e1) PosInf = True"
| "flt NegInf (Finite m2 e2) = True"
| "flt NegInf PosInf = True"
| "flt _ _ = False"

text \<open>
  The comparison \<open>x <= y\<close>, also false on NaN. The program does not use it; it states
  the tiers \<open>0.5 <= ratio\<close> and \<open>ratio >= 0.7\<close> of the specification.
\<close>

fun fle :: "float64 \<Rightarrow> float64 \<Rightarrow> bool" where
  "fle (Finite m1 e1) (Finite m2 e2) = (m1 * pow2 (e1 - e2) \<le> m2 * pow2 (e2 - e1))"
| "fle (Finite m1 e1) PosInf = True"
| "fle NegInf (Finite m2 e2) = True"
| "fle NegInf NegInf = True"
| "fle NegInf PosInf = True"
| "fle PosInf PosInf = True"
| "fle _ _ = False"

text \<open>The constants \<open>0.5\<close>, \<open>0.6\<close> and \<open>0.7\<close>, rounded to \<open>float64\<close> as the compiler does.\<close>

definition c_0_5 :: float64 where "c_0_5 = round_float64 5 10"
definition c_0_6 :: float64 where "c_0_6 = round_float64 6 10"
definition c_0_7 :: float64 where "c_0_7 = round_float64 7 10"

section \<open>Models\<close>

record Option =
  o_ID :: string
  o_Text :: string
  o_Points :: go_int

record Question =
  q_ID :: string
  q_Text :: string
  q_Category :: string
  q_Options :: "Option list"
  q_Weight :: go_int

text \<open>
  \<open>Answers\<close> is a Go map from question identifier to option identifier. A Go map may
  be \<open>nil\<close> (\<open>None\<close> here): reading a nil map finds no entry, assigning to one panics.
\<close>

record Assessment =
  a_ID :: string
  a_ApplicationID :: string
  a_CreatedAt :: string
  a_Answers :: "(string \<rightharpoonup> string) option"
  a_Status :: string

record Recommendation =
  rec_Category :: string
  rec_Description :: string
  rec_Priority :: string

record Risk =
  risk_Category :: string
  risk_Description :: string
  risk_Severity :: string

record ModernizationStep =
  step_Order :: go_int
  step_Description :: string
  step_Effort :: string

record Report =
  r_AssessmentID :: string
  r_ApplicationID :: string
  r_GeneratedAt :: string
  r_TotalScore :: go_int
  r_MaxPossibleScore :: go_int
  r_CategoryScores :: "string \<rightharpoonup> go_int"
  r_Recommendations :: "Recommendation list"
  r_Risks :: "Risk list"
  r_ModernizationPlan :: "ModernizationStep list"

section \<open>The modernization plan\<close>

text \<open>\<open>len(plan)\<close> as an \<open>int\<close>.\<close>

definition len :: "'a list \<Rightarrow> go_int" where
  "len xs = of_nat (length xs)"

definition overallRatio :: "go_int \<Rightarrow> go_int \<Rightarrow> float64" where
  "overallRatio totalScore maxScore = fdiv (float64_of_int totalScore) (float64_of_int maxScore)"

definition createModernizationPlan :: "go_int \<Rightarrow> go_int \<Rightarrow> ModernizationStep list" where
  "createModernizationPlan totalScore maxScore =
     (let ratio = fdiv (float64_of_int totalScore) (float64_of_int maxScore);
          plan = [];
          plan = plan @ [\<lparr>step_Order = 1,
                   step_Description = ''Analyze application dependencies and external integrations'',
                   step_Effort = ''Low''\<rparr>];
          plan =
            (if flt ratio c_0_5 then
               plan @ [\<lparr>step_Order = 2,
                          step_Description = ''Refactor application architecture for microservices'',
                          step_Effort = ''High''\<rparr>,
                       \<lparr>step_Order = 3,
                          step_Description = ''Implement appropriate data persistence strategy'',
                          step_Effort = ''High''\<rparr>,
                       \<lparr>step_Order = 4,
                          step_Description = ''Create containerization strategy with multiple containers'',
                          step_Effort = ''Medium''\<rparr>]
             else if flt ratio c_0_7 then
               plan @ [\<lparr>step_Order = 2,
                          step_Description = ''Refactor specific components for containerization'',
                          step_Effort = ''Medium''\<rparr>,
                       \<lparr>step_Order = 3,
                          step_Description = ''Adapt data persistence for cloud environment'',
                          step_Effort = ''Medium''\<rparr>]
             else plan)
      in plan @ [\<lparr>step_Order = len plan + 1,
                    step_Description = ''Containerize application components'',
                    step_Effort = ''Medium''\<rparr>,
                 \<lparr>step_Order = len plan + 2,
                    step_Description = ''Create Kubernetes deployment manifests'',
                    step_Effort = ''Medium''\<rparr>,
                 \<lparr>step_Order = len plan + 3,
                    step_Description = ''Set up CI/CD pipeline for Kubernetes deployment'',
                    step_Effort = ''Medium''\<rparr>,
                 \<lparr>step_Order = len plan + 4,
                    step_Description = ''Implement monitoring and observability'',
                    step_Effort = ''Medium''\<rparr>])"

section \<open>Scoring\<close>

text \<open>The statement \<open>m[k] += v\<close> on a Go map: a missing key reads as 0.\<close>

definition add_to :: "(string \<rightharpoonup> go_int) \<Rightarrow> string \<Rightarrow> go_int \<Rightarrow> (string \<rightharpoonup> go_int)" where
  "add_to m k v = m(k \<mapsto> (case m k of None \<Rightarrow> 0 | Some c \<Rightarrow> c) + v)"

fun maxOptionPoints_loop :: "go_int \<Rightarrow> Option list \<Rightarrow> go_int" where
  "maxOptionPoints_loop mx [] = mx"
| "maxOptionPoints_loop mx (option # options) =
     maxOptionPoints_loop (if mx <s o_Points option then o_Points option else mx) options"

definition maxOptionPoints :: "Option list \<Rightarrow> go_int" where
  "maxOptionPoints options = maxOptionPoints_loop 0 options"

text \<open>The inner loop of the scorer: the first option with the chosen identifier.\<close>

fun findOption :: "string \<Rightarrow> Option list \<Rightarrow> Option option" where
  "findOption optionID [] = None"
| "findOption optionID (option # options) =
     (if o_ID option = optionID then Some option else findOption optionID options)"

record Scores =
  s_totalScore :: go_int
  s_maxScore :: go_int
  s_categoryScores :: "string \<rightharpoonup> go_int"
  s_categoryMaxScores :: "string \<rightharpoonup> go_int"

text \<open>One round of the loop over the questions.\<close>

definition scoreQuestion :: "(string \<rightharpoonup> string) \<Rightarrow> Scores \<Rightarrow> Question \<Rightarrow> Scores" where
  "scoreQuestion answers sc question =
     (let sc = sc\<lparr>s_maxScore := s_maxScore sc + q_Weight question * maxOptionPoints (q_Options question),
                  s_categoryMaxScores :=
                    add_to (s_categoryMaxScores sc) (q_Category question)
                      (q_Weight question * maxOptionPoints (q_Options question))\<rparr>
      in case answers (q_ID question) of
           None \<Rightarrow> sc
         | Some optionID \<Rightarrow>
             (case findOption optionID (q_Options question) of
                None \<Rightarrow> sc
              | Some option \<Rightarrow>
                  (let score = o_Points option * q_Weight question
                   in sc\<lparr>s_totalScore := s_totalScore sc + score,
                         s_categoryScores := add_to (s_categoryScores sc) (q_Category question) score\<rparr>)))"

definition calculateScores :: "(string \<rightharpoonup> string) \<Rightarrow> Question list \<Rightarrow> Scores" where
  "calculateScores answers questions =
     foldl (scoreQuestion answers)
       \<lparr>s_totalScore = 0, s_maxScore = 0, s_categoryScores = Map.empty,
         s_categoryMaxScores = Map.empty\<rparr>
       questions"

text \<open>Reading \<open>assessment.Answers[k]\<close>: a nil map has no entry.\<close>

definition answersOf :: "Assessment \<Rightarrow> (string \<rightharpoonup> string)" where
  "answersOf assessment = (case a_Answers assessment of None \<Rightarrow> Map.empty | Some m \<Rightarrow> m)"

section \<open>Recommendations and risks\<close>

definition overallRecommendation :: "Report \<Rightarrow> go_int \<Rightarrow> go_int \<Rightarrow> Report" where
  "overallRecommendation report totalScore maxScore =
     (let ratio = fdiv (float64_of_int totalScore) (float64_of_int maxScore)
      in if flt ratio c_0_5 then
           report\<lparr>r_Recommendations := r_Recommendations report @
                    [\<lparr>rec_Category = ''General'',
                      rec_Description =
                        ''Application requires significant modifications for Kubernetes deployment'',
                      rec_Priority = ''High''\<rparr>],
                  r_Risks := r_Risks report @
                    [\<lparr>risk_Category = ''Deployment'',
                      risk_Description =
                        ''Application architecture not suitable for containerization'',
                      risk_Severity = ''High''\<rparr>]\<rparr>
         else if flt ratio c_0_7 then
           report\<lparr>r_Recommendations := r_Recommendations report @
                    [\<lparr>rec_Category = ''General'',
                      rec_Description =
                        ''Application needs moderate changes to be suitable for Kubernetes'',
                      rec_Priority = ''Medium''\<rparr>]\<rparr>
         else
           report\<lparr>r_Recommendations := r_Recommendations report @
                    [\<lparr>rec_Category = ''General'',
                      rec_Description =
                        ''Application is a good candidate for Kubernetes deployment'',
                      rec_Priority = ''Low''\<rparr>]\<rparr>)"

text \<open>One round of the loop over the category scores.\<close>

definition categoryStep :: "(string \<rightharpoonup> go_int) \<Rightarrow> Report \<Rightarrow> string \<times> go_int \<Rightarrow> Report" where
  "categoryStep categoryMaxScores report entry =
     (let category = fst entry; score = snd entry
      in case categoryMaxScores category of
           None \<Rightarrow> report
         | Some maxScore \<Rightarrow>
             if maxScore = 0 then report
             else
               (let ratio = fdiv (float64_of_int score) (float64_of_int maxScore)
                in if flt ratio c_0_5 \<and> category = ''Architecture'' then
                     report\<lparr>r_Recommendations := r_Recommendations report @
                              [\<lparr>rec_Category = category,
                                rec_Description =
                                  ''Consider refactoring application architecture to be more containerization-friendly'',
                                rec_Priority = ''High''\<rparr>],
                            r_Risks := r_Risks report @
                              [\<lparr>risk_Category = category,
                                risk_Description =
                                  ''Complex architecture may lead to challenges in containerization'',
                                risk_Severity = ''High''\<rparr>]\<rparr>
                   else if flt ratio c_0_6 \<and> category = ''Persistence'' then
                     report\<lparr>r_Recommendations := r_Recommendations report @
                              [\<lparr>rec_Category = category,
                                rec_Description =
                                  ''Review database access patterns for compatibility with Kubernetes'',
                                rec_Priority = ''Medium''\<rparr>],
                            r_Risks := r_Risks report @
                              [\<lparr>risk_Category = category,
                                risk_Description =
                                  ''Data persistence implementation may cause issues in containerized environment'',
                                risk_Severity = ''Medium''\<rparr>]\<rparr>
                   else report))"

text \<open>
  \<open>for category, score := range categoryScores\<close> visits every entry of the map once, in
  an order that Go leaves unspecified. The order of one run is the list \<open>order\<close> of the
  keys; \<open>iteration_order\<close> says that it is an order the loop can take.
\<close>

definition iteration_order :: "string list \<Rightarrow> (string \<rightharpoonup> go_int) \<Rightarrow> bool" where
  "iteration_order order m \<longleftrightarrow> distinct order \<and> set order = dom m"

definition range_entries :: "string list \<Rightarrow> (string \<rightharpoonup> go_int) \<Rightarrow> (string \<times> go_int) list" where
  "range_entries order m = List.map_filter (\<lambda>k. map_option (Pair k) (m k)) order"

definition generateRecommendations ::
  "string list \<Rightarrow> Report \<Rightarrow> go_int \<Rightarrow> go_int \<Rightarrow> (string \<rightharpoonup> go_int) \<Rightarrow> (string \<rightharpoonup> go_int) \<Rightarrow> Report" where
  "generateRecommendations order report totalScore maxScore categoryScores categoryMaxScores =
     foldl (categoryStep categoryMaxScores)
       (overallRecommendation report totalScore maxScore)
       (range_entries order categoryScores)"

section \<open>The report\<close>

datatype error = OSError | New string | Errorf string error | Panic string

text \<open>
  \<open>generateReport\<close>; \<open>now\<close> is the formatted time of the call and \<open>order\<close> the order in
  which the run iterates over the category scores. Its error result is always nil.
\<close>

definition generateReport :: "string \<Rightarrow> string list \<Rightarrow> Assessment \<Rightarrow> Question list \<Rightarrow> error + Report" where
  "generateReport now order assessment questions =
     (let report = \<lparr>r_AssessmentID = a_ID assessment,
                     r_ApplicationID = a_ApplicationID assessment,
                     r_GeneratedAt = now,
                     r_TotalScore = 0,
                     r_MaxPossibleScore = 0,
                     r_CategoryScores = Map.empty,
                     r_Recommendations = [],
                     r_Risks = [],
                     r_ModernizationPlan = []\<rparr>;
          sc = calculateScores (answersOf assessment) questions;
          report = report\<lparr>r_TotalScore := s_totalScore sc,
                          r_MaxPossibleScore := s_maxScore sc,
                          r_CategoryScores := s_categoryScores sc\<rparr>;
          report = generateRecommendations order report (s_totalScore sc) (s_maxScore sc)
                     (s_categoryScores sc) (s_categoryMaxScores sc);
          report = report\<lparr>r_ModernizationPlan := createModernizationPlan (s_totalScore sc) (s_maxScore sc)\<rparr>
      in Inr report)"

section \<open>File storage\<close>

text \<open>
  \<open>FileStorage\<close> keeps one JSON file per record in three directories; a record with
  identifier \<open>id\<close> is the file \<open>id.json\<close>. Each directory maps a file name to its file: a
  file is missing, cannot be read, does not parse, or holds a record (the JSON encoding
  itself is not modelled). \<open>questionNames\<close> is what \<open>os.ReadDir\<close> lists in the questions
  directory, \<open>None\<close> when the directory cannot be read. Whether \<open>os.WriteFile\<close> succeeds
  is up to the environment: the two flags say so for each directory, and a write that
  fails leaves the files as they were.
\<close>

datatype 'a slot = Missing | ReadError | Malformed | Holds 'a

record FileStorage =
  questionNames :: "string list option"
  questionFiles :: "string \<Rightarrow> Question slot"
  assessmentFiles :: "string \<Rightarrow> Assessment slot"
  reportFiles :: "string \<Rightarrow> Report slot"
  assessmentsWritable :: bool
  reportsWritable :: bool




definition GetQuestion :: "FileStorage \<Rightarrow> string \<Rightarrow> error + Question option" where
  "GetQuestion fs ident =
     (case questionFiles fs (ident @ ''.json'') of
        Missing \<Rightarrow> Inr None
      | ReadError \<Rightarrow> Inl (Errorf ''failed to read question file'' OSError)
      | Malformed \<Rightarrow> Inl (Errorf ''failed to unmarshal question'' OSError)
      | Holds question \<Rightarrow> Inr (Some question))"

definition GetAssessment :: "FileStorage \<Rightarrow> string \<Rightarrow> error + Assessment option" where
  "GetAssessment fs ident =
     (case assessmentFiles fs (ident @ ''.json'') of
        Missing \<Rightarrow> Inr None
      | ReadError \<Rightarrow> Inl (Errorf ''failed to read assessment file'' OSError)
      | Malformed \<Rightarrow> Inl (Errorf ''failed to unmarshal assessment'' OSError)
      | Holds assessment \<Rightarrow> Inr (Some assessment))"

text \<open>
  \<open>UpdateAssessment\<close> refuses only a file that \<open>os.Stat\<close> reports as not existing, and
  then overwrites the file named after the identifier inside the record.
\<close>

definition UpdateAssessment :: "FileStorage \<Rightarrow> Assessment \<Rightarrow> error + FileStorage" where
  "UpdateAssessment fs assessment =
     (case assessmentFiles fs (a_ID assessment @ ''.json'') of
        Missing \<Rightarrow> Inl (New (''assessment not found: '' @ a_ID assessment))
      | _ \<Rightarrow>
          if assessmentsWritable fs
          then Inr (fs\<lparr>assessmentFiles :=
                        (assessmentFiles fs)(a_ID assessment @ ''.json'' := Holds assessment)\<rparr>)
          else Inl (Errorf ''failed to write assessment file'' OSError))"


section \<open>The assessment service\<close>

fun optionValid :: "string \<Rightarrow> Option list \<Rightarrow> bool" where
  "optionValid optionID [] = False"
| "optionValid optionID (option # options) =
     (if o_ID option = optionID then True else optionValid optionID options)"

text \<open>\<open>SaveAnswer\<close> returns its error, or the storage after the call.\<close>

definition SaveAnswer :: "FileStorage \<Rightarrow> string \<Rightarrow> string \<Rightarrow> string \<Rightarrow> error + FileStorage" where
  "SaveAnswer fs assessmentID questionID optionID =
     (case GetAssessment fs assessmentID of
        Inl err \<Rightarrow> Inl (Errorf ''failed to get assessment'' err)
      | Inr None \<Rightarrow> Inl (New ''assessment not found'')
      | Inr (Some assessment) \<Rightarrow>
          (case GetQuestion fs questionID of
             Inl err \<Rightarrow> Inl (Errorf ''failed to get question'' err)
           | Inr None \<Rightarrow> Inl (New ''question not found'')
           | Inr (Some question) \<Rightarrow>
               if \<not> optionValid optionID (q_Options question)
               then Inl (New ''option not found for question'')
               else
                 (case a_Answers assessment of
                    None \<Rightarrow> Inl (Panic ''assignment to entry in nil map'')
                  | Some answers \<Rightarrow>
                      (case UpdateAssessment fs
                              (assessment\<lparr>a_Answers := Some (answers(questionID \<mapsto> optionID))\<rparr>) of
                         Inl err \<Rightarrow> Inl (Errorf ''failed to update assessment'' err)
                       | Inr fs' \<Rightarrow> Inr fs'))))"


section \<open>What the specification says, for comparison\<close>

text \<open>
  The specification's condition for a category rule: the category has a score, its
  maximum is present and not 0, and score / maximum is below the threshold.
\<close>

definition categoryRatio_below ::
  "(string \<rightharpoonup> go_int) \<Rightarrow> (string \<rightharpoonup> go_int) \<Rightarrow> string \<Rightarrow> float64 \<Rightarrow> bool" where
  "categoryRatio_below categoryScores categoryMaxScores category threshold =
     (case categoryScores category of
        None \<Rightarrow> False
      | Some score \<Rightarrow>
          (case categoryMaxScores category of
             None \<Rightarrow> False
           | Some maxScore \<Rightarrow>
               maxScore \<noteq> 0 \<and>
               flt (fdiv (float64_of_int score) (float64_of_int maxScore)) threshold))"

text \<open>The entries that the specification's two category rules give one category.\<close>

definition spec_category_recommendations ::
  "(string \<rightharpoonup> go_int) \<Rightarrow> (string \<rightharpoonup> go_int) \<Rightarrow> string \<Rightarrow> Recommendation list" where
  "spec_category_recommendations categoryScores categoryMaxScores category =
     (if category = ''Architecture'' \<and>
         categoryRatio_below categoryScores categoryMaxScores category c_0_5
      then [\<lparr>rec_Category = ''Architecture'',
             rec_Description =
               ''Consider refactoring application architecture to be more containerization-friendly'',
             rec_Priority = ''High''\<rparr>]
      else if category = ''Persistence'' \<and>
         categoryRatio_below categoryScores categoryMaxScores category c_0_6
      then [\<lparr>rec_Category = ''Persistence'',
             rec_Description =
               ''Review database access patterns for compatibility with Kubernetes'',
             rec_Priority = ''Medium''\<rparr>]
      else [])"

definition spec_category_risks ::
  "(string \<rightharpoonup> go_int) \<Rightarrow> (string \<rightharpoonup> go_int) \<Rightarrow> string \<Rightarrow> Risk list" where
  "spec_category_risks categoryScores categoryMaxScores category =
     (if category = ''Architecture'' \<and>
         categoryRatio_below categoryScores categoryMaxScores category c_0_5
      then [\<lparr>risk_Category = ''Architecture'',
             risk_Description =
               ''Complex architecture may lead to challenges in containerization'',
             risk_Severity = ''High''\<rparr>]
      else if category = ''Persistence'' \<and>
         categoryRatio_below categoryScores categoryMaxScores category c_0_6
      then [\<lparr>risk_Category = ''Persistence'',
             risk_Description =
               ''Data persistence implementation may cause issues in containerized environment'',
             risk_Severity = ''Medium''\<rparr>]
      else [])"

section \<open>Example data\<close>

definition example_question :: Question where
  "example_question =
     \<lparr>q_ID = ''q1'', q_Text = ''Is the application stateless?'', q_Category = ''Architecture'',
      q_Options = [\<lparr>o_ID = ''q1_a1'', o_Text = ''Yes'', o_Points = 10\<rparr>], q_Weight = 5\<rparr>"

definition example_assessment :: Assessment where
  "example_assessment =
     \<lparr>a_ID = ''a1'', a_ApplicationID = ''app1'', a_CreatedAt = ''2024-01-01T00:00:00Z'',
      a_Answers = Some Map.empty, a_Status = ''in_progress''\<rparr>"

definition example_storage :: FileStorage where
  "example_storage =
     \<lparr>questionNames = Some [''q1.json'', ''notes.txt''],
      questionFiles = (\<lambda>name. Missing)(''q1.json'' := Holds example_question),
      assessmentFiles = (\<lambda>name. Missing)(''a1.json'' := Holds example_assessment),
      reportFiles = (\<lambda>name. Missing),
      assessmentsWritable = True,
      reportsWritable = True\<rparr>"


definition example_report :: Report where
  "example_report =
     \<lparr>r_AssessmentID = ''a1'', r_ApplicationID = ''app1'',
      r_GeneratedAt = ''2024-01-02T00:00:00Z'', r_TotalScore = 0, r_MaxPossibleScore = 50,
      r_CategoryScores = [''Architecture'' \<mapsto> 0], r_Recommendations = [], r_Risks = [],
      r_ModernizationPlan = []\<rparr>"

text \<open>The example storage when the assessments directory refuses writes.\<close>

definition example_storage_unwritable :: FileStorage where
  "example_storage_unwritable = example_storage\<lparr>assessmentsWritable := False\<rparr>"


definition example_storage_answered :: FileStorage where
  "example_storage_answered =
     example_storage\<lparr>assessmentFiles :=
       (assessmentFiles example_storage)
         (''a1.json'' := Holds (example_assessment\<lparr>a_Answers := Some [''q1'' \<mapsto> ''q1_a1'']\<rparr>))\<rparr>"


text \<open>The example storage with the assessment already completed.\<close>

definition example_storage_closed :: FileStorage where
  "example_storage_closed =
     example_storage\<lparr>assessmentFiles :=
       (assessmentFiles example_storage)
         (''a1.json'' := Holds (example_assessment\<lparr>a_Status := ''completed''\<rparr>))\<rparr>"

section \<open>Exact scores\<close>

text \<open>
  The scores as mathematical integers, without the wrap-around of \<open>int\<close>: what one
  question adds to the total, the total, and the maximum.
\<close>

definition exactScore :: "(string \<rightharpoonup> string) \<Rightarrow> Question \<Rightarrow> int" where
  "exactScore answers question =
     (case answers (q_ID question) of
        None \<Rightarrow> 0
      | Some optionID \<Rightarrow>
          (case findOption optionID (q_Options question) of
             None \<Rightarrow> 0
           | Some option \<Rightarrow> sint (o_Points option) * sint (q_Weight question)))"

definition exactTotal :: "(string \<rightharpoonup> string) \<Rightarrow> Question list \<Rightarrow> int" where
  "exactTotal answers questions = sum_list (map (exactScore answers) questions)"

definition exactMax :: "Question list \<Rightarrow> int" where
  "exactMax questions =
     sum_list (map (\<lambda>question. sint (q_Weight question) *
                                 sint (maxOptionPoints (q_Options question))) questions)"

definition fits_int :: "int \<Rightarrow> bool" where
  "fits_int k \<longleftrightarrow> - (2 ^ 63) \<le> k \<and> k < 2 ^ 63"

text \<open>The catalog with the points of option \<open>j\<close> of question \<open>i\<close> replaced.\<close>

definition raisePoints :: "Question list \<Rightarrow> nat \<Rightarrow> nat \<Rightarrow> go_int \<Rightarrow> Question list" where
  "raisePoints questions i j points =
     questions[i := (questions ! i)\<lparr>q_Options :=
       (q_Options (questions ! i))[j := (q_Options (questions ! i) ! j)\<lparr>o_Points := points\<rparr>]\<rparr>]"

text \<open>Questions whose weight is negative, or so large that the products leave \<open>int\<close>.\<close>

definition negative_weight_question :: Question where
  "negative_weight_question =
     \<lparr>q_ID = ''q1'', q_Text = ''Is the application stateless?'', q_Category = ''Architecture'',
      q_Options = [\<lparr>o_ID = ''q1_a1'', o_Text = ''Yes'', o_Points = 3\<rparr>], q_Weight = - 1\<rparr>"

definition overflowing_question :: Question where
  "overflowing_question =
     \<lparr>q_ID = ''q1'', q_Text = ''Is the application stateless?'', q_Category = ''Architecture'',
      q_Options = [\<lparr>o_ID = ''q1_a1'', o_Text = ''Yes'', o_Points = 2\<rparr>],
      q_Weight = 4611686018427387904\<rparr>"

definition heavy_question :: Question where
  "heavy_question =
     \<lparr>q_ID = ''q1'', q_Text = ''Is the application stateless?'', q_Category = ''Architecture'',
      q_Options = [\<lparr>o_ID = ''q1_a1'', o_Text = ''Yes'', o_Points = 1\<rparr>],
      q_Weight = 4611686018427387904\<rparr>"

section \<open>Facts about the floating-point operations\<close>

lemma bit_length_0: "bit_length 0 = 0"
  by (subst bit_length.simps) simp

lemma bit_length_1: "bit_length (Suc 0) = Suc 0"
  by (subst bit_length.simps) (simp add: bit_length_0)

lemma bit_length_numeral: "bit_length (numeral k) = Suc (bit_length (numeral k div 2))"
  by (subst bit_length.simps) simp

lemmas bit_length_eval = bit_length_0 bit_length_1 bit_length_numeral

lemma round_float64_pos:
  assumes "0 < p" and "floor_log2 p q = e" and "s = max e (- 1022) - 52"
    and "round_half_even (p * pow2 (- s)) (q * pow2 s) = m"
    and "int (bit_length (nat m)) + s \<le> 1024"
  shows "round_float64 p q = Finite m s"
  using assms by (simp add: round_float64_def Let_def)

lemma c_0_5_value: "c_0_5 = Finite 4503599627370496 (- 53)"
  unfolding c_0_5_def
  by (rule round_float64_pos [where e = "- 1"])
     (simp_all add: floor_log2_def round_half_even_def pow2_def bit_length_eval Let_def)

lemma c_0_6_value: "c_0_6 = Finite 5404319552844595 (- 53)"
  unfolding c_0_6_def
  by (rule round_float64_pos [where e = "- 1"])
     (simp_all add: floor_log2_def round_half_even_def pow2_def bit_length_eval Let_def)

lemma c_0_7_value: "c_0_7 = Finite 6305039478318694 (- 53)"
  unfolding c_0_7_def
  by (rule round_float64_pos [where e = "- 1"])
     (simp_all add: floor_log2_def round_half_even_def pow2_def bit_length_eval Let_def)

lemma pow2_pos: "0 < pow2 k"
  by (simp add: pow2_def)

lemma fle_not_flt: "fle a b \<Longrightarrow> \<not> flt b a"
  by (cases a; cases b) auto

lemma flt_half_imp_flt_0_7: "flt r c_0_5 \<Longrightarrow> flt r c_0_7"
proof (cases r)
  case (Finite m e)
  assume "flt r c_0_5"
  with Finite have "m * pow2 (e + 53) < 4503599627370496 * pow2 (- 53 - e)"
    by (simp add: c_0_5_value)
  moreover have "4503599627370496 * pow2 (- 53 - e) \<le> 6305039478318694 * pow2 (- 53 - e)"
    using pow2_pos [of "- 53 - e"] by simp
  ultimately show ?thesis
    using Finite by (simp add: c_0_7_value)
qed (simp_all add: c_0_5_value c_0_7_value)

lemma float64_of_int_0: "float64_of_int 0 = Finite 0 0"
  by (simp add: float64_of_int_def round_float64_def)

lemma overallRatio_0_0: "overallRatio 0 0 = NaN"
  by (simp add: overallRatio_def float64_of_int_0)

lemma sint_50: "sint (50 :: go_int) = 50"
  by simp

lemma sint_30: "sint (30 :: go_int) = 30"
  by simp

lemma float64_of_int_50: "float64_of_int 50 = Finite 7036874417766400 (- 47)"
  unfolding float64_of_int_def sint_50
  by (rule round_float64_pos [where e = 5])
     (simp_all add: floor_log2_def round_half_even_def pow2_def bit_length_eval Let_def)

lemma float64_of_int_30: "float64_of_int 30 = Finite 8444249301319680 (- 48)"
  unfolding float64_of_int_def sint_30
  by (rule round_float64_pos [where e = 4])
     (simp_all add: floor_log2_def round_half_even_def pow2_def bit_length_eval Let_def)

lemma overallRatio_0_50: "overallRatio 0 50 = Finite 0 0"
  by (simp add: overallRatio_def float64_of_int_0 float64_of_int_50 round_float64_def)

lemma overallRatio_30_50: "overallRatio 30 50 = Finite 5404319552844595 (- 53)"
proof -
  have "round_float64 8444249301319680 14073748835532800 = Finite 5404319552844595 (- 53)"
    by (rule round_float64_pos [where e = "- 1"])
       (simp_all add: floor_log2_def round_half_even_def pow2_def bit_length_eval Let_def)
  then show ?thesis
    by (simp add: overallRatio_def float64_of_int_30 float64_of_int_50 pow2_def)
qed

lemma overallRatio_50_50: "overallRatio 50 50 = Finite 4503599627370496 (- 52)"
proof -
  have "round_float64 7036874417766400 7036874417766400 = Finite 4503599627370496 (- 52)"
    by (rule round_float64_pos [where e = 0])
       (simp_all add: floor_log2_def round_half_even_def pow2_def bit_length_eval Let_def)
  then show ?thesis
    by (simp add: overallRatio_def float64_of_int_50 pow2_def)
qed

lemma ratio_0_50: "flt (overallRatio 0 50) c_0_5"
  by (simp add: overallRatio_0_50 c_0_5_value pow2_def)

lemma ratio_30_50: "fle c_0_5 (overallRatio 30 50) \<and> flt (overallRatio 30 50) c_0_7"
  by (simp add: overallRatio_30_50 c_0_5_value c_0_7_value pow2_def)

lemma ratio_50_50: "fle c_0_7 (overallRatio 50 50)"
  by (simp add: overallRatio_50_50 c_0_7_value pow2_def)

section \<open>The plan is numbered by position\<close>

lemma upto_5: "map of_nat [Suc 0 ..< 6] = [1, 2, 3, 4, 5 :: go_int]"
  by (simp add: upt_rec)

lemma upto_7: "map of_nat [Suc 0 ..< 8] = [1, 2, 3, 4, 5, 6, 7 :: go_int]"
  by (simp add: upt_rec)

lemma upto_8: "map of_nat [Suc 0 ..< 9] = [1, 2, 3, 4, 5, 6, 7, 8 :: go_int]"
  by (simp add: upt_rec)

lemma length_map_eq: "map f xs = ys \<Longrightarrow> length xs = length ys"
  by auto

lemma plan_shape_low:
  assumes "flt (overallRatio t m) c_0_5"
  shows "length (createModernizationPlan t m) = 8"
    and "map step_Order (createModernizationPlan t m) =
           map of_nat [1 ..< Suc (length (createModernizationPlan t m))]"
    and "step_Effort (hd (createModernizationPlan t m)) = ''Low''"
    and "\<forall>step \<in> set (drop (length (createModernizationPlan t m) - 4) (createModernizationPlan t m)).
           step_Effort step = ''Medium''"
  using assms
  by (simp_all add: createModernizationPlan_def overallRatio_def len_def upt_rec)

lemma plan_shape_mid:
  assumes "\<not> flt (overallRatio t m) c_0_5" and "flt (overallRatio t m) c_0_7"
  shows "length (createModernizationPlan t m) = 7"
    and "map step_Order (createModernizationPlan t m) =
           map of_nat [1 ..< Suc (length (createModernizationPlan t m))]"
    and "step_Effort (hd (createModernizationPlan t m)) = ''Low''"
    and "\<forall>step \<in> set (drop (length (createModernizationPlan t m) - 4) (createModernizationPlan t m)).
           step_Effort step = ''Medium''"
  using assms
  by (simp_all add: createModernizationPlan_def overallRatio_def len_def upt_rec)

lemma plan_shape_high:
  assumes "\<not> flt (overallRatio t m) c_0_5" and "\<not> flt (overallRatio t m) c_0_7"
  shows "length (createModernizationPlan t m) = 5"
    and "map step_Order (createModernizationPlan t m) =
           map of_nat [1 ..< Suc (length (createModernizationPlan t m))]"
    and "step_Effort (hd (createModernizationPlan t m)) = ''Low''"
    and "\<forall>step \<in> set (drop (length (createModernizationPlan t m) - 4) (createModernizationPlan t m)).
           step_Effort step = ''Medium''"
  using assms
  by (simp_all add: createModernizationPlan_def overallRatio_def len_def upt_rec)

lemma nth_of_positions:
  assumes "map f xs = map of_nat [1 ..< Suc (length xs)]" and "i < length xs"
  shows "f (xs ! i) = (of_nat (i + 1) :: go_int)"
proof -
  have "f (xs ! i) = map f xs ! i"
    using assms(2) by simp
  also have "\<dots> = map of_nat [1 ..< Suc (length xs)] ! i"
    by (simp only: assms(1))
  also have "\<dots> = of_nat ([1 ..< Suc (length xs)] ! i)"
    using assms(2) by (intro nth_map) simp
  also have "[1 ..< Suc (length xs)] ! i = 1 + i"
    using assms(2) by (intro nth_upt) simp
  finally show ?thesis by (simp add: add.commute)
qed

text \<open>
  For every input the steps are numbered by position, the first has effort Low and the
  last four have effort Medium; the length follows the two comparisons of the program.
\<close>

lemma plan_positions:
  fixes totalScore maxScore :: go_int
  defines "plan \<equiv> createModernizationPlan totalScore maxScore"
    and "ratio \<equiv> overallRatio totalScore maxScore"
  shows "map step_Order plan = map of_nat [1 ..< Suc (length plan)] \<and>
         (\<forall>i < length plan. step_Order (plan ! i) = of_nat (i + 1)) \<and>
         (flt ratio c_0_5 \<longrightarrow> length plan = 1 + 3 + 4) \<and>
         (fle c_0_5 ratio \<and> flt ratio c_0_7 \<longrightarrow> length plan = 1 + 2 + 4) \<and>
         (fle c_0_7 ratio \<longrightarrow> length plan = 1 + 0 + 4) \<and>
         length plan = (if flt ratio c_0_5 then 8 else if flt ratio c_0_7 then 7 else 5) \<and>
         step_Effort (hd plan) = ''Low'' \<and>
         (\<forall>step \<in> set (drop (length plan - 4) plan). step_Effort step = ''Medium'')"
proof -
  consider (low) "flt ratio c_0_5"
    | (mid) "\<not> flt ratio c_0_5" "flt ratio c_0_7"
    | (high) "\<not> flt ratio c_0_5" "\<not> flt ratio c_0_7"
    by blast
  then have shape:
    "map step_Order plan = map of_nat [1 ..< Suc (length plan)] \<and>
     step_Effort (hd plan) = ''Low'' \<and>
     (\<forall>step \<in> set (drop (length plan - 4) plan). step_Effort step = ''Medium'') \<and>
     length plan = (if flt ratio c_0_5 then 8 else if flt ratio c_0_7 then 7 else 5)"
  proof cases
    case low
    from plan_shape_low [OF low [unfolded ratio_def]] low show ?thesis
      unfolding plan_def by (intro conjI) simp_all
  next
    case mid
    from plan_shape_mid [OF mid [unfolded ratio_def]] mid show ?thesis
      unfolding plan_def by (intro conjI) simp_all
  next
    case high
    from plan_shape_high [OF high [unfolded ratio_def]] high show ?thesis
      unfolding plan_def by (intro conjI) simp_all
  qed
  then have orders: "map step_Order plan = map of_nat [1 ..< Suc (length plan)]"
    and low_effort: "step_Effort (hd plan) = ''Low''"
    and medium_effort: "\<forall>step \<in> set (drop (length plan - 4) plan). step_Effort step = ''Medium''"
    and lengths: "length plan = (if flt ratio c_0_5 then 8 else if flt ratio c_0_7 then 7 else 5)"
    by blast+
  have position: "\<forall>i < length plan. step_Order (plan ! i) = of_nat (i + 1)"
    using nth_of_positions [OF orders] by blast
  have low: "flt ratio c_0_5 \<longrightarrow> length plan = 1 + 3 + 4"
    using lengths by simp
  have mid: "fle c_0_5 ratio \<and> flt ratio c_0_7 \<longrightarrow> length plan = 1 + 2 + 4"
    using lengths fle_not_flt [of c_0_5 ratio] by simp
  have high: "fle c_0_7 ratio \<longrightarrow> length plan = 1 + 0 + 4"
    using lengths fle_not_flt [of c_0_7 ratio] flt_half_imp_flt_0_7 [of ratio] by auto
  from orders position low mid high lengths low_effort medium_effort show ?thesis
    by (intro conjI)
qed

section \<open>The overall ratio when the maximum score is 0\<close>

lemma flt_NaN: "\<not> flt NaN c"
  by simp

lemma range_entries_empty: "range_entries order Map.empty = []"
  by (induction order) (simp_all add: range_entries_def List.map_filter_simps)

lemma calculateScores_Nil:
  "calculateScores answers [] =
     \<lparr>s_totalScore = 0, s_maxScore = 0, s_categoryScores = Map.empty,
      s_categoryMaxScores = Map.empty\<rparr>"
  by (simp add: calculateScores_def)

lemma overallRecommendation_0_0:
  "overallRecommendation report 0 0 =
     report\<lparr>r_Recommendations := r_Recommendations report @
       [\<lparr>rec_Category = ''General'',
         rec_Description = ''Application is a good candidate for Kubernetes deployment'',
         rec_Priority = ''Low''\<rparr>]\<rparr>"
  by (simp add: overallRecommendation_def float64_of_int_0)

lemma plan_0_0: "map step_Order (createModernizationPlan 0 0) = [1, 2, 3, 4, 5]"
proof -
  have "\<not> flt (overallRatio 0 0) c_0_5" "\<not> flt (overallRatio 0 0) c_0_7"
    by (simp_all add: overallRatio_0_0)
  from plan_shape_high [OF this] show ?thesis
    by (simp add: upto_5 del: upt_Suc)
qed

text \<open>
  Claim C1, at the empty catalog. The scores are \<open>total = 0\<close> and \<open>maxPossible = 0\<close>, the
  quotient \<open>float64(0) / float64(0)\<close> is NaN and no fault occurs; but NaN is below neither
  threshold, so the report carries the Low-priority "good candidate" recommendation, no
  risk, and the 5-step plan, where the claim has the High-priority recommendation and
  the 8-step plan.
\<close>

theorem empty_catalog_report:
  "\<exists>report. generateReport now order assessment [] = Inr report \<and>
     r_TotalScore report = 0 \<and> r_MaxPossibleScore report = 0 \<and>
     overallRatio (r_TotalScore report) (r_MaxPossibleScore report) = NaN \<and>
     r_Recommendations report =
       [\<lparr>rec_Category = ''General'',
         rec_Description = ''Application is a good candidate for Kubernetes deployment'',
         rec_Priority = ''Low''\<rparr>] \<and>
     r_Risks report = [] \<and>
     map step_Order (r_ModernizationPlan report) = [1, 2, 3, 4, 5]"
  by (simp add: generateReport_def calculateScores_Nil generateRecommendations_def
      range_entries_empty overallRecommendation_0_0 plan_0_0 overallRatio_0_0)

text \<open>
  Claim C2, at \<open>totalScore = 0\<close>, \<open>maxScore = 0\<close> and no category score. The one "General"
  recommendation that \<open>generateRecommendations\<close> adds has priority Low and no risk is
  added, where the claim (the ratio being taken as 0 when the maximum is 0) has priority
  High and the Deployment risk.
\<close>

theorem zero_max_overall_recommendation:
  "r_Recommendations (generateRecommendations order report 0 0 Map.empty categoryMaxScores) =
     r_Recommendations report @
       [\<lparr>rec_Category = ''General'',
         rec_Description = ''Application is a good candidate for Kubernetes deployment'',
         rec_Priority = ''Low''\<rparr>] \<and>
   r_Risks (generateRecommendations order report 0 0 Map.empty categoryMaxScores) =
     r_Risks report"
  by (simp add: generateRecommendations_def range_entries_empty overallRecommendation_0_0)

text \<open>
  Claim C3, at \<open>totalScore = 0\<close> and \<open>maxScore = 0\<close>. The plan is numbered 1 to 5: the ratio
  is NaN, not below 0.5, and the three steps of the lowest tier are not inserted, where
  the claim (the ratio being taken as 0 when the maximum is 0) has \<open>N = 1 + 3 + 4\<close>.
\<close>

theorem zero_max_plan_has_five_steps:
  "overallRatio 0 0 = NaN \<and>
   \<not> flt (overallRatio 0 0) c_0_5 \<and>
   map step_Order (createModernizationPlan 0 0) = [1, 2, 3, 4, 5] \<and>
   length (createModernizationPlan 0 0) = 5"
proof -
  have "length (createModernizationPlan 0 0) = 5"
    by (rule plan_shape_high(1)) (simp_all add: overallRatio_0_0)
  then show ?thesis
    by (simp add: overallRatio_0_0 plan_0_0)
qed

section \<open>The category rules\<close>

lemma categoryStep_spec:
  assumes "categoryScores category = Some score"
  shows "categoryStep categoryMaxScores report (category, score) =
           report\<lparr>r_Recommendations := r_Recommendations report @
                      spec_category_recommendations categoryScores categoryMaxScores category,
                    r_Risks := r_Risks report @
                      spec_category_risks categoryScores categoryMaxScores category\<rparr>"
proof (cases "categoryMaxScores category")
  case None
  with assms show ?thesis
    by (simp add: categoryStep_def spec_category_recommendations_def spec_category_risks_def
        categoryRatio_below_def)
next
  case (Some maxScore)
  show ?thesis
  proof (cases "maxScore = 0")
    case True
    with assms Some show ?thesis
      by (simp add: categoryStep_def spec_category_recommendations_def spec_category_risks_def
          categoryRatio_below_def)
  next
    case False
    define ratio where "ratio = fdiv (float64_of_int score) (float64_of_int maxScore)"
    have below: "categoryRatio_below categoryScores categoryMaxScores category threshold =
                 flt ratio threshold" for threshold
      using assms Some False by (simp add: categoryRatio_below_def ratio_def)
    have step: "categoryStep categoryMaxScores report (category, score) =
        (if flt ratio c_0_5 \<and> category = ''Architecture'' then
           report\<lparr>r_Recommendations := r_Recommendations report @
                    [\<lparr>rec_Category = category,
                      rec_Description =
                        ''Consider refactoring application architecture to be more containerization-friendly'',
                      rec_Priority = ''High''\<rparr>],
                  r_Risks := r_Risks report @
                    [\<lparr>risk_Category = category,
                      risk_Description =
                        ''Complex architecture may lead to challenges in containerization'',
                      risk_Severity = ''High''\<rparr>]\<rparr>
         else if flt ratio c_0_6 \<and> category = ''Persistence'' then
           report\<lparr>r_Recommendations := r_Recommendations report @
                    [\<lparr>rec_Category = category,
                      rec_Description =
                        ''Review database access patterns for compatibility with Kubernetes'',
                      rec_Priority = ''Medium''\<rparr>],
                  r_Risks := r_Risks report @
                    [\<lparr>risk_Category = category,
                      risk_Description =
                        ''Data persistence implementation may cause issues in containerized environment'',
                      risk_Severity = ''Medium''\<rparr>]\<rparr>
         else report)"
      unfolding categoryStep_def ratio_def Let_def fst_conv snd_conv Some option.case
      using False by (rule if_not_P)
    consider (arch) "flt ratio c_0_5" "category = ''Architecture''"
      | (pers) "\<not> (flt ratio c_0_5 \<and> category = ''Architecture'')"
          "flt ratio c_0_6" "category = ''Persistence''"
      | (none) "\<not> (flt ratio c_0_5 \<and> category = ''Architecture'')"
          "\<not> (flt ratio c_0_6 \<and> category = ''Persistence'')"
      by blast
    then show ?thesis
    proof cases
      case arch
      then show ?thesis
        unfolding step spec_category_recommendations_def spec_category_risks_def below
        by simp
    next
      case pers
      then show ?thesis
        unfolding step spec_category_recommendations_def spec_category_risks_def below
        by simp
    next
      case none
      then show ?thesis
        unfolding step spec_category_recommendations_def spec_category_risks_def below
        by simp
    qed
  qed
qed

lemma spec_category_absent:
  assumes "categoryScores category = None"
  shows "spec_category_recommendations categoryScores categoryMaxScores category = []"
    and "spec_category_risks categoryScores categoryMaxScores category = []"
  using assms
  by (simp_all add: spec_category_recommendations_def spec_category_risks_def
      categoryRatio_below_def)

lemma category_loop:
  "foldl (categoryStep categoryMaxScores) report (range_entries order categoryScores) =
     report\<lparr>r_Recommendations := r_Recommendations report @
                concat (map (spec_category_recommendations categoryScores categoryMaxScores) order),
              r_Risks := r_Risks report @
                concat (map (spec_category_risks categoryScores categoryMaxScores) order)\<rparr>"
proof (induction order arbitrary: report)
  case Nil
  show ?case by (simp add: range_entries_def List.map_filter_simps)
next
  case (Cons category order)
  show ?case
  proof (cases "categoryScores category")
    case None
    then have "range_entries (category # order) categoryScores = range_entries order categoryScores"
      by (simp add: range_entries_def List.map_filter_simps)
    then show ?thesis
      using Cons.IH [of report] None
        spec_category_absent [of categoryScores category categoryMaxScores]
      by simp
  next
    case (Some score)
    then have "range_entries (category # order) categoryScores =
                 (category, score) # range_entries order categoryScores"
      by (simp add: range_entries_def List.map_filter_simps)
    then show ?thesis
      using Cons.IH Some categoryStep_spec [of categoryScores category score categoryMaxScores report]
      by simp
  qed
qed

lemma concat_single_key:
  assumes "distinct keys" and "\<And>k. k \<noteq> c \<Longrightarrow> g k = []"
  shows "concat (map g keys) = (if c \<in> set keys then g c else [])"
  using assms(1)
proof (induction keys)
  case Nil
  show ?case by simp
next
  case (Cons a keys)
  show ?case
  proof (cases "a = c")
    case True
    with Cons show ?thesis by simp
  next
    case False
    with Cons assms(2) [of a] show ?thesis by simp
  qed
qed

lemma filter_spec_recommendations:
  "filter (\<lambda>x. rec_Category x = c)
     (spec_category_recommendations categoryScores categoryMaxScores k) =
   (if k = c then spec_category_recommendations categoryScores categoryMaxScores c else [])"
  by (auto simp add: spec_category_recommendations_def)

lemma filter_spec_risks:
  "filter (\<lambda>x. risk_Category x = c)
     (spec_category_risks categoryScores categoryMaxScores k) =
   (if k = c then spec_category_risks categoryScores categoryMaxScores c else [])"
  by (auto simp add: spec_category_risks_def)

lemma filter_category_recommendations:
  assumes "iteration_order order categoryScores"
  shows "filter (\<lambda>x. rec_Category x = c)
           (concat (map (spec_category_recommendations categoryScores categoryMaxScores) order)) =
         spec_category_recommendations categoryScores categoryMaxScores c"
proof -
  let ?g = "\<lambda>k. filter (\<lambda>x. rec_Category x = c)
                   (spec_category_recommendations categoryScores categoryMaxScores k)"
  have "filter (\<lambda>x. rec_Category x = c)
          (concat (map (spec_category_recommendations categoryScores categoryMaxScores) order)) =
        concat (map ?g order)"
    by (simp add: filter_concat comp_def)
  also have "\<dots> = (if c \<in> set order then ?g c else [])"
    using assms
    by (intro concat_single_key) (simp_all add: iteration_order_def filter_spec_recommendations)
  also have "\<dots> = spec_category_recommendations categoryScores categoryMaxScores c"
  proof (cases "c \<in> set order")
    case True
    then show ?thesis by (simp add: filter_spec_recommendations)
  next
    case False
    with assms have "categoryScores c = None"
      by (auto simp add: iteration_order_def)
    with False show ?thesis
      by (simp add: spec_category_absent)
  qed
  finally show ?thesis .
qed

lemma filter_category_risks:
  assumes "iteration_order order categoryScores"
  shows "filter (\<lambda>x. risk_Category x = c)
           (concat (map (spec_category_risks categoryScores categoryMaxScores) order)) =
         spec_category_risks categoryScores categoryMaxScores c"
proof -
  let ?g = "\<lambda>k. filter (\<lambda>x. risk_Category x = c)
                   (spec_category_risks categoryScores categoryMaxScores k)"
  have "filter (\<lambda>x. risk_Category x = c)
          (concat (map (spec_category_risks categoryScores categoryMaxScores) order)) =
        concat (map ?g order)"
    by (simp add: filter_concat comp_def)
  also have "\<dots> = (if c \<in> set order then ?g c else [])"
    using assms
    by (intro concat_single_key) (simp_all add: iteration_order_def filter_spec_risks)
  also have "\<dots> = spec_category_risks categoryScores categoryMaxScores c"
  proof (cases "c \<in> set order")
    case True
    then show ?thesis by (simp add: filter_spec_risks)
  next
    case False
    with assms have "categoryScores c = None"
      by (auto simp add: iteration_order_def)
    with False show ?thesis
      by (simp add: spec_category_absent)
  qed
  finally show ?thesis .
qed

text \<open>
  Claim C7. Whatever order the loop takes over the category scores, the entries that
  \<open>generateRecommendations\<close> appends after the overall recommendation are, category by
  category, those of the two rules: a category with a score whose maximum is absent or 0
  gets nothing; "Architecture" with ratio below 0.5 gets one High-priority
  recommendation and one High-severity risk; "Persistence" with ratio below 0.6 gets one
  Medium-priority recommendation and one Medium-severity risk; every other category
  gets nothing.
\<close>

theorem category_rules:
  assumes "iteration_order order categoryScores"
  shows "\<exists>recs risks.
           r_Recommendations
             (generateRecommendations order report totalScore maxScore categoryScores
                categoryMaxScores) =
             r_Recommendations (overallRecommendation report totalScore maxScore) @ recs \<and>
           r_Risks
             (generateRecommendations order report totalScore maxScore categoryScores
                categoryMaxScores) =
             r_Risks (overallRecommendation report totalScore maxScore) @ risks \<and>
           (\<forall>category.
              filter (\<lambda>x. rec_Category x = category) recs =
                spec_category_recommendations categoryScores categoryMaxScores category \<and>
              filter (\<lambda>x. risk_Category x = category) risks =
                spec_category_risks categoryScores categoryMaxScores category)"
proof (intro exI conjI allI)
  show "r_Recommendations
          (generateRecommendations order report totalScore maxScore categoryScores
             categoryMaxScores) =
        r_Recommendations (overallRecommendation report totalScore maxScore) @
          concat (map (spec_category_recommendations categoryScores categoryMaxScores) order)"
    by (simp add: generateRecommendations_def category_loop)
  show "r_Risks
          (generateRecommendations order report totalScore maxScore categoryScores
             categoryMaxScores) =
        r_Risks (overallRecommendation report totalScore maxScore) @
          concat (map (spec_category_risks categoryScores categoryMaxScores) order)"
    by (simp add: generateRecommendations_def category_loop)
  show "filter (\<lambda>x. rec_Category x = category)
          (concat (map (spec_category_recommendations categoryScores categoryMaxScores) order)) =
        spec_category_recommendations categoryScores categoryMaxScores category" for category
    using assms by (rule filter_category_recommendations)
  show "filter (\<lambda>x. risk_Category x = category)
          (concat (map (spec_category_risks categoryScores categoryMaxScores) order)) =
        spec_category_risks categoryScores categoryMaxScores category" for category
    using assms by (rule filter_category_risks)
qed

lemma example_architecture_below_half:
  "categoryRatio_below [''Architecture'' \<mapsto> 0] [''Architecture'' \<mapsto> 50] ''Architecture'' c_0_5"
  using ratio_0_50 by (simp add: categoryRatio_below_def overallRatio_def)

theorem category_rules_witness:
  "iteration_order [''Architecture''] [''Architecture'' \<mapsto> 0] \<and>
   (\<exists>recs risks.
      r_Recommendations
        (generateRecommendations [''Architecture''] example_report 0 50 [''Architecture'' \<mapsto> 0]
           [''Architecture'' \<mapsto> 50]) =
        r_Recommendations (overallRecommendation example_report 0 50) @ recs \<and>
      filter (\<lambda>x. rec_Category x = ''Architecture'') recs =
        [\<lparr>rec_Category = ''Architecture'',
          rec_Description =
            ''Consider refactoring application architecture to be more containerization-friendly'',
          rec_Priority = ''High''\<rparr>] \<and>
      filter (\<lambda>x. risk_Category x = ''Architecture'') risks =
        [\<lparr>risk_Category = ''Architecture'',
          risk_Description = ''Complex architecture may lead to challenges in containerization'',
          risk_Severity = ''High''\<rparr>] \<and>
      filter (\<lambda>x. rec_Category x = ''Persistence'') recs = [])"
proof -
  have order: "iteration_order [''Architecture''] [''Architecture'' \<mapsto> (0 :: go_int)]"
    by (simp add: iteration_order_def)
  from category_rules [OF order, of example_report 0 50 "[''Architecture'' \<mapsto> 50]"]
  obtain recs risks where
    recs: "r_Recommendations
        (generateRecommendations [''Architecture''] example_report 0 50 [''Architecture'' \<mapsto> 0]
           [''Architecture'' \<mapsto> 50]) =
        r_Recommendations (overallRecommendation example_report 0 50) @ recs"
    and rules: "\<And>category.
      filter (\<lambda>x. rec_Category x = category) recs =
        spec_category_recommendations [''Architecture'' \<mapsto> 0] [''Architecture'' \<mapsto> 50] category \<and>
      filter (\<lambda>x. risk_Category x = category) risks =
        spec_category_risks [''Architecture'' \<mapsto> 0] [''Architecture'' \<mapsto> 50] category"
    by blast
  have "filter (\<lambda>x. rec_Category x = ''Architecture'') recs =
        [\<lparr>rec_Category = ''Architecture'',
          rec_Description =
            ''Consider refactoring application architecture to be more containerization-friendly'',
          rec_Priority = ''High''\<rparr>]"
    using rules [of "''Architecture''"] example_architecture_below_half
    by (simp add: spec_category_recommendations_def)
  moreover have "filter (\<lambda>x. risk_Category x = ''Architecture'') risks =
        [\<lparr>risk_Category = ''Architecture'',
          risk_Description = ''Complex architecture may lead to challenges in containerization'',
          risk_Severity = ''High''\<rparr>]"
    using rules [of "''Architecture''"] example_architecture_below_half
    by (simp add: spec_category_risks_def)
  moreover have "filter (\<lambda>x. rec_Category x = ''Persistence'') recs = []"
    using rules [of "''Persistence''"]
    by (simp add: spec_category_recommendations_def categoryRatio_below_def)
  ultimately show ?thesis
    using order recs by blast
qed

section \<open>Saving an answer\<close>

lemma GetAssessment_Some_iff:
  "GetAssessment fs ident = Inr (Some assessment) \<longleftrightarrow>
     assessmentFiles fs (ident @ ''.json'') = Holds assessment"
  by (simp add: GetAssessment_def split: slot.splits)

lemma GetQuestion_Some_iff:
  "GetQuestion fs ident = Inr (Some question) \<longleftrightarrow>
     questionFiles fs (ident @ ''.json'') = Holds question"
  by (simp add: GetQuestion_def split: slot.splits)

lemma UpdateAssessment_Inr_iff:
  "UpdateAssessment fs assessment = Inr fs' \<longleftrightarrow>
     assessmentFiles fs (a_ID assessment @ ''.json'') \<noteq> Missing \<and> assessmentsWritable fs \<and>
     fs' = fs\<lparr>assessmentFiles :=
                (assessmentFiles fs)(a_ID assessment @ ''.json'' := Holds assessment)\<rparr>"
  by (cases "assessmentFiles fs (a_ID assessment @ ''.json'')")
    (auto simp add: UpdateAssessment_def)

lemma UpdateAssessment_Inl:
  assumes "UpdateAssessment fs assessment = Inl err"
  shows "assessmentFiles fs (a_ID assessment @ ''.json'') = Missing \<or> \<not> assessmentsWritable fs"
  using assms
  by (cases "assessmentFiles fs (a_ID assessment @ ''.json'')")
    (auto simp add: UpdateAssessment_def split: if_splits)

lemma SaveAnswer_Inr_iff:
  "SaveAnswer fs assessmentID questionID optionID = Inr fs' \<longleftrightarrow>
     (\<exists>assessment question answers.
        assessmentFiles fs (assessmentID @ ''.json'') = Holds assessment \<and>
        questionFiles fs (questionID @ ''.json'') = Holds question \<and>
        optionValid optionID (q_Options question) \<and>
        a_Answers assessment = Some answers \<and>
        assessmentFiles fs (a_ID assessment @ ''.json'') \<noteq> Missing \<and>
        assessmentsWritable fs \<and>
        fs' = fs\<lparr>assessmentFiles :=
                   (assessmentFiles fs)
                     (a_ID assessment @ ''.json'' :=
                        Holds (assessment\<lparr>a_Answers := Some (answers(questionID \<mapsto> optionID))\<rparr>))\<rparr>)"
proof (cases "GetAssessment fs assessmentID")
  case (Inl err)
  then have "\<forall>assessment. assessmentFiles fs (assessmentID @ ''.json'') \<noteq> Holds assessment"
    by (auto simp add: GetAssessment_def split: slot.splits)
  with Inl show ?thesis
    by (simp add: SaveAnswer_def)
next
  case (Inr found)
  show ?thesis
  proof (cases found)
    case None
    with Inr have "\<forall>assessment. assessmentFiles fs (assessmentID @ ''.json'') \<noteq> Holds assessment"
      by (auto simp add: GetAssessment_def split: slot.splits)
    with Inr None show ?thesis
      by (simp add: SaveAnswer_def)
  next
    case (Some assessment)
    with Inr have held: "assessmentFiles fs (assessmentID @ ''.json'') = Holds assessment"
      by (simp add: GetAssessment_Some_iff)
    show ?thesis
    proof (cases "GetQuestion fs questionID")
      case (Inl err)
      then have "\<forall>question. questionFiles fs (questionID @ ''.json'') \<noteq> Holds question"
        by (auto simp add: GetQuestion_def split: slot.splits)
      with Inr Some Inl show ?thesis
        by (simp add: SaveAnswer_def)
    next
      case question: (Inr foundq)
      show ?thesis
      proof (cases foundq)
        case None
        with question
        have "\<forall>question. questionFiles fs (questionID @ ''.json'') \<noteq> Holds question"
          by (auto simp add: GetQuestion_def split: slot.splits)
        with Inr Some question None show ?thesis
          by (simp add: SaveAnswer_def)
      next
        case q: (Some question')
        with question have heldq: "questionFiles fs (questionID @ ''.json'') = Holds question'"
          by (simp add: GetQuestion_Some_iff)
        show ?thesis
        proof (cases "a_Answers assessment")
          case None
          with Inr Some question q held heldq show ?thesis
            by (simp add: SaveAnswer_def)
        next
          case answers: (Some answers)
          with Inr Some question q held heldq show ?thesis
            by (auto simp add: SaveAnswer_def UpdateAssessment_Inr_iff split: sum.splits
                dest: UpdateAssessment_Inl)
        qed
      qed
    qed
  qed
qed

lemma SaveAnswer_example:
  "SaveAnswer example_storage ''a1'' ''q1'' ''q1_a1'' = Inr example_storage_answered"
  unfolding SaveAnswer_Inr_iff
  by (simp add: example_storage_def example_storage_answered_def example_assessment_def
      example_question_def)

lemma generateReport_returns:
  "\<exists>report. generateReport now order assessment questions = Inr report"
  unfolding generateReport_def Let_def by blast



text \<open>
  Claim C9. When \<open>SaveAnswer\<close> succeeds, the only change to the storage is the
  assessment file named after the identifier inside the record that was read: it now
  holds that record with the answer map changed at the question alone. The map sends
  the question to the option, every other entry is as before, and \<open>ID\<close>, \<open>ApplicationID\<close>,
  \<open>CreatedAt\<close> and \<open>Status\<close> are as before. When the record's identifier is the one asked
  for, as it is for every file written by this storage, reading the assessment back
  gives that record.
\<close>

theorem SaveAnswer_frame:
  assumes "SaveAnswer fs assessmentID questionID optionID = Inr fs'"
  shows "\<exists>assessment answers stored answers'.
           GetAssessment fs assessmentID = Inr (Some assessment) \<and>
           a_Answers assessment = Some answers \<and>
           fs' = fs\<lparr>assessmentFiles :=
                      (assessmentFiles fs)(a_ID assessment @ ''.json'' := Holds stored)\<rparr> \<and>
           a_Answers stored = Some answers' \<and>
           answers' questionID = Some optionID \<and>
           (\<forall>q. q \<noteq> questionID \<longrightarrow> answers' q = answers q) \<and>
           a_ID stored = a_ID assessment \<and>
           a_ApplicationID stored = a_ApplicationID assessment \<and>
           a_CreatedAt stored = a_CreatedAt assessment \<and>
           a_Status stored = a_Status assessment \<and>
           (a_ID assessment = assessmentID \<longrightarrow>
              GetAssessment fs' assessmentID = Inr (Some stored))"
proof -
  from assms obtain assessment question answers where
    held: "assessmentFiles fs (assessmentID @ ''.json'') = Holds assessment"
    and answers: "a_Answers assessment = Some answers"
    and fs': "fs' = fs\<lparr>assessmentFiles :=
                   (assessmentFiles fs)
                     (a_ID assessment @ ''.json'' :=
                        Holds (assessment\<lparr>a_Answers := Some (answers(questionID \<mapsto> optionID))\<rparr>))\<rparr>"
    unfolding SaveAnswer_Inr_iff by blast
  let ?stored = "assessment\<lparr>a_Answers := Some (answers(questionID \<mapsto> optionID))\<rparr>"
  have "GetAssessment fs assessmentID = Inr (Some assessment)"
    using held by (simp add: GetAssessment_Some_iff)
  moreover have "a_ID assessment = assessmentID \<longrightarrow>
                 GetAssessment fs' assessmentID = Inr (Some ?stored)"
    by (simp add: GetAssessment_Some_iff fs')
  moreover have "a_Answers ?stored = Some (answers(questionID \<mapsto> optionID))"
    by simp
  moreover have "(answers(questionID \<mapsto> optionID)) questionID = Some optionID"
    by simp
  moreover have "\<forall>q. q \<noteq> questionID \<longrightarrow> (answers(questionID \<mapsto> optionID)) q = answers q"
    by simp
  moreover have "a_ID ?stored = a_ID assessment"
    "a_ApplicationID ?stored = a_ApplicationID assessment"
    "a_CreatedAt ?stored = a_CreatedAt assessment"
    "a_Status ?stored = a_Status assessment"
    by simp_all
  ultimately show ?thesis
    using answers fs' by blast
qed

theorem SaveAnswer_frame_witness:
  "SaveAnswer example_storage ''a1'' ''q1'' ''q1_a1'' = Inr example_storage_answered \<and>
   (\<exists>stored answers'.
      GetAssessment example_storage_answered ''a1'' = Inr (Some stored) \<and>
      a_Answers stored = Some answers' \<and>
      answers' ''q1'' = Some ''q1_a1'' \<and>
      a_Status stored = ''in_progress'')"
proof -
  from SaveAnswer_frame [OF SaveAnswer_example]
  obtain assessment answers stored answers' where
    got: "GetAssessment example_storage ''a1'' = Inr (Some assessment)"
    and stored: "a_Answers stored = Some answers'" "answers' ''q1'' = Some ''q1_a1''"
      "a_Status stored = a_Status assessment"
    and reread: "a_ID assessment = ''a1'' \<longrightarrow>
               GetAssessment example_storage_answered ''a1'' = Inr (Some stored)"
    by blast
  from got have "assessment = example_assessment"
    by (simp add: GetAssessment_Some_iff example_storage_def)
  then have "a_ID assessment = ''a1''" "a_Status assessment = ''in_progress''"
    by (simp_all add: example_assessment_def)
  with reread stored SaveAnswer_example show ?thesis
    by auto
qed

section \<open>Completing an assessment\<close>



section \<open>When saving an answer fails\<close>

text \<open>
  Claim C8, amended. \<open>SaveAnswer\<close> succeeds exactly when the assessment file and the
  question file are read and parsed, the option is one of the question's options, the
  answer map of the assessment is not nil, a file named after the identifier inside the
  assessment record exists, and the write succeeds. A missing assessment, a missing
  question and an option of another question give the three errors of the claim. The
  status of the assessment is never read: replacing it by any other status does not
  change whether the call succeeds.
\<close>

theorem SaveAnswer_succeeds_iff:
  "((\<exists>fs'. SaveAnswer fs assessmentID questionID optionID = Inr fs') \<longleftrightarrow>
      (\<exists>assessment question answers.
         assessmentFiles fs (assessmentID @ ''.json'') = Holds assessment \<and>
         questionFiles fs (questionID @ ''.json'') = Holds question \<and>
         optionValid optionID (q_Options question) \<and>
         a_Answers assessment = Some answers \<and>
         assessmentFiles fs (a_ID assessment @ ''.json'') \<noteq> Missing \<and>
         assessmentsWritable fs)) \<and>
   (GetAssessment fs assessmentID = Inr None \<longrightarrow>
      SaveAnswer fs assessmentID questionID optionID = Inl (New ''assessment not found'')) \<and>
   (\<forall>assessment.
      GetAssessment fs assessmentID = Inr (Some assessment) \<and>
      GetQuestion fs questionID = Inr None \<longrightarrow>
      SaveAnswer fs assessmentID questionID optionID = Inl (New ''question not found'')) \<and>
   (\<forall>assessment question.
      GetAssessment fs assessmentID = Inr (Some assessment) \<and>
      GetQuestion fs questionID = Inr (Some question) \<and>
      \<not> optionValid optionID (q_Options question) \<longrightarrow>
      SaveAnswer fs assessmentID questionID optionID = Inl (New ''option not found for question'')) \<and>
   (\<forall>assessment status.
      assessmentFiles fs (assessmentID @ ''.json'') = Holds assessment \<longrightarrow>
      ((\<exists>fs'. SaveAnswer
               (fs\<lparr>assessmentFiles :=
                     (assessmentFiles fs)
                       (assessmentID @ ''.json'' := Holds (assessment\<lparr>a_Status := status\<rparr>))\<rparr>)
               assessmentID questionID optionID = Inr fs') \<longleftrightarrow>
       (\<exists>fs'. SaveAnswer fs assessmentID questionID optionID = Inr fs')))"
proof (intro conjI allI impI)
  show "(\<exists>fs'. SaveAnswer fs assessmentID questionID optionID = Inr fs') \<longleftrightarrow>
      (\<exists>assessment question answers.
         assessmentFiles fs (assessmentID @ ''.json'') = Holds assessment \<and>
         questionFiles fs (questionID @ ''.json'') = Holds question \<and>
         optionValid optionID (q_Options question) \<and>
         a_Answers assessment = Some answers \<and>
         assessmentFiles fs (a_ID assessment @ ''.json'') \<noteq> Missing \<and>
         assessmentsWritable fs)"
    unfolding SaveAnswer_Inr_iff by blast
next
  assume "GetAssessment fs assessmentID = Inr None"
  then show "SaveAnswer fs assessmentID questionID optionID = Inl (New ''assessment not found'')"
    by (simp add: SaveAnswer_def)
next
  fix assessment
  assume "GetAssessment fs assessmentID = Inr (Some assessment) \<and>
          GetQuestion fs questionID = Inr None"
  then show "SaveAnswer fs assessmentID questionID optionID = Inl (New ''question not found'')"
    by (simp add: SaveAnswer_def)
next
  fix assessment question
  assume "GetAssessment fs assessmentID = Inr (Some assessment) \<and>
          GetQuestion fs questionID = Inr (Some question) \<and>
          \<not> optionValid optionID (q_Options question)"
  then show "SaveAnswer fs assessmentID questionID optionID =
             Inl (New ''option not found for question'')"
    by (simp add: SaveAnswer_def)
next
  fix assessment status
  assume held: "assessmentFiles fs (assessmentID @ ''.json'') = Holds assessment"
  let ?fs = "fs\<lparr>assessmentFiles :=
                 (assessmentFiles fs)
                   (assessmentID @ ''.json'' := Holds (assessment\<lparr>a_Status := status\<rparr>))\<rparr>"
  have missing: "assessmentFiles ?fs name = Missing \<longleftrightarrow> assessmentFiles fs name = Missing"
    for name
    using held by simp
  have "(\<exists>fs'. SaveAnswer ?fs assessmentID questionID optionID = Inr fs') \<longleftrightarrow>
        (\<exists>question answers.
           questionFiles fs (questionID @ ''.json'') = Holds question \<and>
           optionValid optionID (q_Options question) \<and>
           a_Answers assessment = Some answers \<and>
           assessmentFiles fs (a_ID assessment @ ''.json'') \<noteq> Missing \<and>
           assessmentsWritable fs)"
    unfolding SaveAnswer_Inr_iff using missing [of "a_ID assessment @ ''.json''"]
    by auto
  also have "\<dots> \<longleftrightarrow> (\<exists>fs'. SaveAnswer fs assessmentID questionID optionID = Inr fs')"
    unfolding SaveAnswer_Inr_iff using held by auto
  finally show "(\<exists>fs'. SaveAnswer ?fs assessmentID questionID optionID = Inr fs') \<longleftrightarrow>
                (\<exists>fs'. SaveAnswer fs assessmentID questionID optionID = Inr fs')" .
qed

theorem SaveAnswer_succeeds_iff_witness:
  "assessmentFiles example_storage (''a1'' @ ''.json'') = Holds example_assessment \<and>
   (\<exists>fs'. SaveAnswer example_storage_closed ''a1'' ''q1'' ''q1_a1'' = Inr fs')"
proof -
  have held: "assessmentFiles example_storage (''a1'' @ ''.json'') = Holds example_assessment"
    by (simp add: example_storage_def)
  have closed: "example_storage_closed =
        example_storage\<lparr>assessmentFiles :=
          (assessmentFiles example_storage)
            (''a1'' @ ''.json'' := Holds (example_assessment\<lparr>a_Status := ''completed''\<rparr>))\<rparr>"
    by (simp add: example_storage_closed_def)
  from SaveAnswer_succeeds_iff [of example_storage "''a1''" "''q1''" "''q1_a1''"]
  have "assessmentFiles example_storage (''a1'' @ ''.json'') = Holds example_assessment \<longrightarrow>
      ((\<exists>fs'. SaveAnswer
               (example_storage\<lparr>assessmentFiles :=
                     (assessmentFiles example_storage)
                       (''a1'' @ ''.json'' :=
                          Holds (example_assessment\<lparr>a_Status := ''completed''\<rparr>))\<rparr>)
               ''a1'' ''q1'' ''q1_a1'' = Inr fs') \<longleftrightarrow>
       (\<exists>fs'. SaveAnswer example_storage ''a1'' ''q1'' ''q1_a1'' = Inr fs'))"
    by blast
  with held SaveAnswer_example closed show ?thesis
    by metis
qed

text \<open>
  The claim as stated fails: with the assessment found, the question found and the
  option one of the question's options, \<open>SaveAnswer\<close> still fails when the write is
  refused.
\<close>

theorem SaveAnswer_write_failure:
  "GetAssessment example_storage_unwritable ''a1'' = Inr (Some example_assessment) \<and>
   GetQuestion example_storage_unwritable ''q1'' = Inr (Some example_question) \<and>
   optionValid ''q1_a1'' (q_Options example_question) \<and>
   SaveAnswer example_storage_unwritable ''a1'' ''q1'' ''q1_a1'' =
     Inl (Errorf ''failed to update assessment'' (Errorf ''failed to write assessment file'' OSError))"
proof -
  have "GetAssessment example_storage_unwritable ''a1'' = Inr (Some example_assessment)"
    by (simp add: GetAssessment_Some_iff example_storage_unwritable_def example_storage_def)
  moreover have "GetQuestion example_storage_unwritable ''q1'' = Inr (Some example_question)"
    by (simp add: GetQuestion_Some_iff example_storage_unwritable_def example_storage_def)
  moreover have "optionValid ''q1_a1'' (q_Options example_question)"
    by (simp add: example_question_def)
  moreover have "a_Answers example_assessment = Some Map.empty"
    by (simp add: example_assessment_def)
  moreover have "UpdateAssessment example_storage_unwritable
                   (example_assessment\<lparr>a_Answers := Some [''q1'' \<mapsto> ''q1_a1'']\<rparr>) =
                 Inl (Errorf ''failed to write assessment file'' OSError)"
    by (simp add: UpdateAssessment_def example_storage_unwritable_def example_storage_def
        example_assessment_def)
  ultimately show ?thesis
    by (simp add: SaveAnswer_def)
qed

section \<open>The scorer\<close>

lemma findOption_None_iff:
  "findOption optionID options = None \<longleftrightarrow> (\<forall>option\<in>set options. o_ID option \<noteq> optionID)"
  by (induction options) auto

lemma findOption_mem:
  "findOption optionID options = Some option \<Longrightarrow> option \<in> set options"
  by (induction options) (auto split: if_splits)

lemma scoreQuestion_total:
  "s_totalScore (scoreQuestion answers sc question) =
     s_totalScore sc + word_of_int (exactScore answers question)"
  by (simp add: scoreQuestion_def exactScore_def Let_def split: option.splits)

lemma scoreQuestion_max:
  "s_maxScore (scoreQuestion answers sc question) =
     s_maxScore sc +
     word_of_int (sint (q_Weight question) * sint (maxOptionPoints (q_Options question)))"
  by (simp add: scoreQuestion_def Let_def split: option.splits)

lemma foldl_total:
  "s_totalScore (foldl (scoreQuestion answers) sc questions) =
     s_totalScore sc + word_of_int (exactTotal answers questions)"
  by (induction questions arbitrary: sc) (simp_all add: exactTotal_def scoreQuestion_total)

lemma foldl_max:
  "s_maxScore (foldl (scoreQuestion answers) sc questions) =
     s_maxScore sc + word_of_int (exactMax questions)"
  by (induction questions arbitrary: sc) (simp_all add: exactMax_def scoreQuestion_max)

lemma total_exact:
  "s_totalScore (calculateScores answers questions) = word_of_int (exactTotal answers questions)"
  by (simp add: calculateScores_def foldl_total)

lemma max_exact:
  "s_maxScore (calculateScores answers questions) = word_of_int (exactMax questions)"
  by (simp add: calculateScores_def foldl_max)

lemma sint_exact:
  assumes "fits_int k"
  shows "sint (word_of_int k :: go_int) = k"
  using assms by (simp add: fits_int_def sint_sbintrunc' signed_take_bit_int_eq_self)

lemma maxOptionPoints_loop_lower:
  "sint mx \<le> sint (maxOptionPoints_loop mx options)"
proof (induction options arbitrary: mx)
  case Nil
  show ?case by simp
next
  case (Cons option options)
  let ?mx = "if mx <s o_Points option then o_Points option else mx"
  have "sint mx \<le> sint ?mx"
    by (simp add: word_sless_alt)
  also have "\<dots> \<le> sint (maxOptionPoints_loop ?mx options)"
    by (rule Cons.IH)
  finally show ?case by simp
qed

lemma maxOptionPoints_loop_upper:
  "option \<in> set options \<Longrightarrow> sint (o_Points option) \<le> sint (maxOptionPoints_loop mx options)"
proof (induction options arbitrary: mx)
  case Nil
  then show ?case by simp
next
  case (Cons first options)
  let ?mx = "if mx <s o_Points first then o_Points first else mx"
  show ?case
  proof (cases "option = first")
    case True
    have "sint (o_Points first) \<le> sint ?mx"
      by (simp add: word_sless_alt)
    also have "\<dots> \<le> sint (maxOptionPoints_loop ?mx options)"
      by (rule maxOptionPoints_loop_lower)
    finally show ?thesis using True by simp
  next
    case False
    with Cons.prems have "option \<in> set options" by simp
    then have "sint (o_Points option) \<le> sint (maxOptionPoints_loop ?mx options)"
      by (rule Cons.IH)
    then show ?thesis by simp
  qed
qed

lemma maxOptionPoints_nonneg: "0 \<le> sint (maxOptionPoints options)"
  using maxOptionPoints_loop_lower [of 0 options] by (simp add: maxOptionPoints_def)

lemma maxOptionPoints_upper:
  "option \<in> set options \<Longrightarrow> sint (o_Points option) \<le> sint (maxOptionPoints options)"
  by (simp add: maxOptionPoints_def maxOptionPoints_loop_upper)

lemma exactScore_bounds:
  assumes "0 \<le> sint (q_Weight question)"
    and "\<forall>option\<in>set (q_Options question). 0 \<le> sint (o_Points option)"
  shows "0 \<le> exactScore answers question"
    and "exactScore answers question \<le>
         sint (q_Weight question) * sint (maxOptionPoints (q_Options question))"
proof -
  have max: "0 \<le> sint (q_Weight question) * sint (maxOptionPoints (q_Options question))"
    using assms(1) maxOptionPoints_nonneg by simp
  show "0 \<le> exactScore answers question"
    using assms
    by (auto simp add: exactScore_def split: option.splits dest: findOption_mem)
  show "exactScore answers question \<le>
        sint (q_Weight question) * sint (maxOptionPoints (q_Options question))"
  proof (cases "answers (q_ID question)")
    case None
    with max show ?thesis by (simp add: exactScore_def)
  next
    case (Some optionID)
    show ?thesis
    proof (cases "findOption optionID (q_Options question)")
      case None
      with Some max show ?thesis by (simp add: exactScore_def)
    next
      case found: (Some option)
      then have "option \<in> set (q_Options question)"
        by (rule findOption_mem)
      then have "sint (o_Points option) \<le> sint (maxOptionPoints (q_Options question))"
        by (rule maxOptionPoints_upper)
      then have "sint (o_Points option) * sint (q_Weight question) \<le>
                 sint (maxOptionPoints (q_Options question)) * sint (q_Weight question)"
        using assms(1) by (rule mult_right_mono)
      with Some found show ?thesis
        by (simp add: exactScore_def mult.commute)
    qed
  qed
qed

lemma exactTotal_bounds:
  assumes "\<forall>question\<in>set questions.
             0 \<le> sint (q_Weight question) \<and>
             (\<forall>option\<in>set (q_Options question). 0 \<le> sint (o_Points option))"
  shows "0 \<le> exactTotal answers questions"
    and "exactTotal answers questions \<le> exactMax questions"
proof -
  show "0 \<le> exactTotal answers questions"
    unfolding exactTotal_def using assms
    by (intro sum_list_nonneg) (auto simp add: exactScore_bounds(1))
  show "exactTotal answers questions \<le> exactMax questions"
    unfolding exactTotal_def exactMax_def using assms
    by (intro sum_list_mono) (simp add: exactScore_bounds(2))
qed

section \<open>Dangling references\<close>

lemma scoreQuestion_dangling:
  assumes "q_ID question = questionID \<longrightarrow> findOption optionID (q_Options question) = None"
  shows "scoreQuestion (answers(questionID \<mapsto> optionID)) sc question =
         scoreQuestion (answers(questionID := None)) sc question"
  using assms by (cases "q_ID question = questionID") (simp_all add: scoreQuestion_def Let_def)

lemma generateReport_answers:
  assumes "calculateScores answers questions = calculateScores answers' questions"
  shows "generateReport now order (assessment\<lparr>a_Answers := Some answers\<rparr>) questions =
         generateReport now order (assessment\<lparr>a_Answers := Some answers'\<rparr>) questions"
  unfolding generateReport_def answersOf_def using assms by simp

text \<open>
  Claim C4. Scoring is total, so it cannot fault. An answer whose option is not among
  the options of its question, and an answer whose question is not in the catalog,
  change nothing: every score (total, maximum, per category) and the whole report are
  those of the answer map without that answer.
\<close>

theorem dangling_references_ignored:
  assumes "\<forall>question\<in>set questions.
             q_ID question = questionID \<longrightarrow>
             (\<forall>option\<in>set (q_Options question). o_ID option \<noteq> optionID)"
  shows "calculateScores (answers(questionID \<mapsto> optionID)) questions =
           calculateScores (answers(questionID := None)) questions \<and>
         (\<exists>report.
            generateReport now order
              (assessment\<lparr>a_Answers := Some (answers(questionID \<mapsto> optionID))\<rparr>) questions =
              Inr report \<and>
            generateReport now order
              (assessment\<lparr>a_Answers := Some (answers(questionID := None))\<rparr>) questions =
              Inr report)"
proof -
  have scores: "calculateScores (answers(questionID \<mapsto> optionID)) questions =
                calculateScores (answers(questionID := None)) questions"
    unfolding calculateScores_def
  proof (rule foldl_cong)
    fix sc question
    assume "question \<in> set questions"
    with assms
    have "q_ID question = questionID \<longrightarrow> findOption optionID (q_Options question) = None"
      by (simp add: findOption_None_iff)
    then show "scoreQuestion (answers(questionID \<mapsto> optionID)) sc question =
               scoreQuestion (answers(questionID := None)) sc question"
      by (rule scoreQuestion_dangling)
  qed simp_all
  obtain report where
    first: "generateReport now order
       (assessment\<lparr>a_Answers := Some (answers(questionID \<mapsto> optionID))\<rparr>) questions = Inr report"
    using generateReport_returns by blast
  have "generateReport now order
       (assessment\<lparr>a_Answers := Some (answers(questionID := None))\<rparr>) questions = Inr report"
    using first generateReport_answers [OF scores, of now order assessment] by simp
  with scores first show ?thesis
    by blast
qed

theorem dangling_references_ignored_witness:
  "calculateScores (Map.empty(''q1'' \<mapsto> ''q1_zz'')) [example_question] =
     calculateScores (Map.empty(''q1'' := None)) [example_question] \<and>
   calculateScores (Map.empty(''q9'' \<mapsto> ''q1_a1'')) [example_question] =
     calculateScores (Map.empty(''q9'' := None)) [example_question]"
proof -
  have option: "\<forall>question\<in>set [example_question].
      q_ID question = ''q1'' \<longrightarrow>
      (\<forall>option\<in>set (q_Options question). o_ID option \<noteq> ''q1_zz'')"
    by (simp add: example_question_def)
  have question: "\<forall>question\<in>set [example_question].
      q_ID question = ''q9'' \<longrightarrow>
      (\<forall>option\<in>set (q_Options question). o_ID option \<noteq> ''q1_a1'')"
    by (simp add: example_question_def)
  from dangling_references_ignored [OF option] dangling_references_ignored [OF question]
  show ?thesis by blast
qed

section \<open>The ceiling\<close>

text \<open>
  Claim C5, amended. The maximum depends on the catalog alone. When, besides the
  points, the weights are not negative either, and the exact sum of weight times
  highest points over the catalog fits \<open>int\<close>, the total lies between 0 and the maximum.
\<close>

theorem ceiling_property:
  "s_maxScore (calculateScores answers questions) =
     s_maxScore (calculateScores answers' questions) \<and>
   ((\<forall>question\<in>set questions.
       0 \<le>s q_Weight question \<and> (\<forall>option\<in>set (q_Options question). 0 \<le>s o_Points option)) \<and>
    exactMax questions < 2 ^ 63 \<longrightarrow>
    0 \<le>s s_totalScore (calculateScores answers questions) \<and>
    s_totalScore (calculateScores answers questions) \<le>s
      s_maxScore (calculateScores answers questions))"
proof (intro conjI impI)
  show "s_maxScore (calculateScores answers questions) =
        s_maxScore (calculateScores answers' questions)"
    by (simp add: max_exact)
next
  assume hyp: "(\<forall>question\<in>set questions.
       0 \<le>s q_Weight question \<and> (\<forall>option\<in>set (q_Options question). 0 \<le>s o_Points option)) \<and>
    exactMax questions < 2 ^ 63"
  then have nonneg: "\<forall>question\<in>set questions.
             0 \<le> sint (q_Weight question) \<and>
             (\<forall>option\<in>set (q_Options question). 0 \<le> sint (o_Points option))"
    by (simp add: word_sle_eq)
  from hyp have small: "exactMax questions < 2 ^ 63"
    by blast
  note bounds = exactTotal_bounds [OF nonneg, of answers]
  from bounds small have "fits_int (exactTotal answers questions)" "fits_int (exactMax questions)"
    by (simp_all add: fits_int_def)
  then have total: "sint (s_totalScore (calculateScores answers questions)) =
                    exactTotal answers questions"
    and maxi: "sint (s_maxScore (calculateScores answers questions)) = exactMax questions"
    by (simp_all add: total_exact max_exact sint_exact)
  show "0 \<le>s s_totalScore (calculateScores answers questions)"
    using bounds(1) by (simp add: word_sle_eq total)
  show "s_totalScore (calculateScores answers questions) \<le>s
        s_maxScore (calculateScores answers questions)"
    using bounds(2) by (simp add: word_sle_eq total maxi)
qed

lemma maxOptionPoints_example: "maxOptionPoints (q_Options example_question) = 10"
  by (simp add: maxOptionPoints_def example_question_def word_sless_alt)

theorem ceiling_property_witness:
  "exactMax [example_question] < 2 ^ 63 \<and>
   0 \<le>s s_totalScore (calculateScores [''q1'' \<mapsto> ''q1_a1''] [example_question]) \<and>
   s_totalScore (calculateScores [''q1'' \<mapsto> ''q1_a1''] [example_question]) \<le>s
     s_maxScore (calculateScores [''q1'' \<mapsto> ''q1_a1''] [example_question])"
proof -
  have points: "\<forall>question\<in>set [example_question].
       0 \<le>s q_Weight question \<and> (\<forall>option\<in>set (q_Options question). 0 \<le>s o_Points option)"
    by (simp add: example_question_def word_sle_eq)
  have "exactMax [example_question] = 50"
    by (simp add: exactMax_def maxOptionPoints_example) (simp add: example_question_def)
  then have small: "exactMax [example_question] < 2 ^ 63"
    by simp
  from ceiling_property [of "[''q1'' \<mapsto> ''q1_a1'']" "[example_question]"] points small
  show ?thesis by blast
qed

text \<open>
  The claim as stated fails in two ways, both with points that are not negative: a
  negative weight makes the total negative, and a weight of \<open>2 ^ 62\<close> with 2 points
  wraps the total around to \<open>- (2 ^ 63)\<close>.
\<close>

theorem ceiling_fails:
  "o_Points (hd (q_Options negative_weight_question)) = 3 \<and>
   s_totalScore (calculateScores [''q1'' \<mapsto> ''q1_a1''] [negative_weight_question]) = - 3 \<and>
   \<not> 0 \<le>s s_totalScore (calculateScores [''q1'' \<mapsto> ''q1_a1''] [negative_weight_question]) \<and>
   o_Points (hd (q_Options overflowing_question)) = 2 \<and>
   s_totalScore (calculateScores [''q1'' \<mapsto> ''q1_a1''] [overflowing_question]) =
     - 9223372036854775808 \<and>
   \<not> 0 \<le>s s_totalScore (calculateScores [''q1'' \<mapsto> ''q1_a1''] [overflowing_question])"
proof -
  have neg: "s_totalScore (calculateScores [''q1'' \<mapsto> ''q1_a1''] [negative_weight_question]) = - 3"
    by (simp add: total_exact exactTotal_def exactScore_def negative_weight_question_def)
  have over: "s_totalScore (calculateScores [''q1'' \<mapsto> ''q1_a1''] [overflowing_question]) =
              - 9223372036854775808"
    by (simp add: total_exact exactTotal_def exactScore_def overflowing_question_def)
  have "\<not> 0 \<le>s (- 3 :: go_int)" "\<not> 0 \<le>s (- 9223372036854775808 :: go_int)"
    by (simp_all add: word_sle_eq)
  with neg over show ?thesis
    by (simp add: negative_weight_question_def overflowing_question_def)
qed

end
